theory Spec2Isabelle
  imports Main
begin

section \<open>The MusicXML builder of \<open>file_export/create_musicxml.py\<close>\<close>

text \<open>
  The class \<open>create_musicXML\<close> builds an lxml element tree by appending elements and
  keeps references to some of them in attributes of the builder (\<open>current_part\<close>,
  \<open>current_bar\<close>, \<open>current_note\<close>, \<open>duration\<close>, ...). The file is Python 2: it starts
  with \<open>from __future__ import unicode_literals\<close> and does not import \<open>division\<close>, so
  \<open>/\<close> on two ints is floor division, which is \<open>div\<close> on \<open>int\<close>.
\<close>

subsection \<open>Python values\<close>

datatype py_error = AttributeError | TypeError | ValueError | ZeroDivisionError

definition digit_char :: "nat \<Rightarrow> char" where
  "digit_char n = ''0123456789'' ! n"

fun digits :: "nat \<Rightarrow> string" where
  "digits n = (if n < 10 then [digit_char n] else digits (n div 10) @ [digit_char (n mod 10)])"

declare digits.simps [simp del]

text \<open>\<open>str(i)\<close> for an int (or long) \<open>i\<close>: the decimal digits, with a leading minus sign.\<close>

definition str_int :: "int \<Rightarrow> string" where
  "str_int i = (if i < 0 then CHR ''-'' # digits (nat (- i)) else digits (nat i))"


text \<open>Reading an attribute of \<open>self\<close> that no method has assigned yet.\<close>

definition getattr :: "'a option \<Rightarrow> py_error + 'a" where
  "getattr v = (case v of None \<Rightarrow> Inl AttributeError | Some x \<Rightarrow> Inr x)"

text \<open>
  Sequencing of calls that may raise: the first exception ends the method. A method
  returns the exception or the builder as it has changed it; what an interrupted method
  had already appended is not kept, and no property below is about a builder after an
  exception.
\<close>

definition seq :: "py_error + 'a \<Rightarrow> ('a \<Rightarrow> py_error + 'b) \<Rightarrow> py_error + 'b" where
  "seq r f = (case r of Inl e \<Rightarrow> Inl e | Inr x \<Rightarrow> f x)"








subsection \<open>Element trees\<close>

text \<open>
  An lxml element: tag, attributes, the text before the first child (\<open>None\<close> when there
  is none) and the children in document order.
\<close>

datatype element =
  Element (tag: string) (attrib: "(string \<times> string) list") (etext: "string option")
    (children: "element list")

text \<open>
  A reference to an element of the tree is its position: the child indices that lead to
  it from the root. The builder only appends children (\<open>etree.SubElement\<close>) and never
  removes or reorders any, so a position denotes the same element for as long as the
  builder lives, and two references alias exactly when they are the same position.
  Python has no dangling reference; \<open>modify\<close> leaves the tree as it is at a position
  that denotes nothing, and the properties below are about positions that denote an
  element.
\<close>

type_synonym ref = "nat list"

primrec lookup :: "ref \<Rightarrow> element \<Rightarrow> element option" where
  "lookup [] e = Some e"
| "lookup (i # p) e =
     (if i < length (children e) then lookup p (children e ! i) else None)"

primrec modify :: "ref \<Rightarrow> (element \<Rightarrow> element) \<Rightarrow> element \<Rightarrow> element" where
  "modify [] f e = f e"
| "modify (i # p) f e =
     (if i < length (children e)
      then Element (tag e) (attrib e) (etext e)
             ((children e)[i := modify p f (children e ! i)])
      else e)"

definition append_child :: "element \<Rightarrow> element \<Rightarrow> element" where
  "append_child c e = Element (tag e) (attrib e) (etext e) (children e @ [c])"

definition put_text :: "string \<Rightarrow> element \<Rightarrow> element" where
  "put_text s e = Element (tag e) (attrib e) (Some s) (children e)"

definition child_count :: "ref \<Rightarrow> element \<Rightarrow> nat" where
  "child_count p t = (case lookup p t of None \<Rightarrow> 0 | Some e \<Rightarrow> length (children e))"

text \<open>
  \<open>etree.SubElement(parent, tag, **attrs)\<close>: a new element without text and children is
  appended to the children of \<open>parent\<close>; the result is the new tree and the reference to
  the new element.
\<close>

definition SubElement :: "element \<Rightarrow> ref \<Rightarrow> string \<Rightarrow> (string \<times> string) list \<Rightarrow> element \<times> ref" where
  "SubElement t parent tg atts =
     (modify parent (append_child (Element tg atts None [])) t,
      parent @ [child_count parent t])"

text \<open>\<open>node.text = s\<close>\<close>

definition set_text :: "element \<Rightarrow> ref \<Rightarrow> string \<Rightarrow> element" where
  "set_text t node s = modify node (put_text s) t"


subsection \<open>The builder\<close>

text \<open>
  The attributes of \<open>self\<close>. An attribute that \<open>__init__\<close> does not assign is \<open>None\<close> until
  a method assigns it, and reading it before raises \<open>AttributeError\<close>.
\<close>

record builder =
  root :: element
  partlist :: ref
  part_count :: int
  current_part :: "ref option"
  bar_nr :: "int option"
  current_bar :: "ref option"
  current_note :: "ref option"
  duration :: "ref option"
  current_notation :: "ref option"
  bar_attr :: "ref option"

text \<open>
  \<open>__init__\<close>. The element \<open>encoding-date\<close> stays empty: the source rebinds the local
  name \<open>encoding_date\<close> to the date string instead of assigning the element's text.
\<close>

definition init :: builder where
  "init =
     (let root0 = Element ''score-partwise'' [(''version'', ''3.0'')] None [];
          (t1, identification) = SubElement root0 [] ''identification'' [];
          (t2, encoding) = SubElement t1 identification ''encoding'' [];
          (t3, software) = SubElement t2 encoding ''software'' [];
          t4 = set_text t3 software ''Frescobaldi'';
          (t5, encoding_date) = SubElement t4 encoding ''encoding-date'' [];
          (t6, pl) = SubElement t5 [] ''part-list'' []
      in \<lparr>root = t6, partlist = pl, part_count = 1, current_part = None, bar_nr = None,
          current_bar = None, current_note = None, duration = None,
          current_notation = None, bar_attr = None\<rparr>)"


definition create_measure :: "builder \<Rightarrow> py_error + builder" where
  "create_measure b =
     seq (getattr (current_part b)) (\<lambda>cp.
     seq (getattr (bar_nr b)) (\<lambda>nr.
       let (t1, bar) = SubElement (root b) cp ''measure'' [(''number'', str_int nr)]
       in Inr (b\<lparr>root := t1, current_bar := Some bar, bar_nr := Some (nr + 1)\<rparr>)))"

subsection \<open>Low-level node creation\<close>















subsection \<open>High-level node creation\<close>





subsection \<open>Sequences of calls\<close>




subsection \<open>Create XML document\<close>












section \<open>Properties\<close>

subsection \<open>Exceptions and attributes\<close>

lemma seq_Inl [simp]: "seq (Inl e) f = Inl e"
  by (simp add: seq_def)


lemma getattr_simps [simp]: "getattr None = Inl AttributeError" "getattr (Some x) = Inr x"
  by (simp_all add: getattr_def)

subsection \<open>Positions in a tree\<close>




















subsection \<open>What the methods do to the tree\<close>














subsection \<open>Call sequences and example builders\<close>








subsection \<open>Durations of notes and tuplets\<close>








subsection \<open>Parts and measures\<close>









text \<open>
  C9: as long as no part has been created the builder has no attribute \<open>current_part\<close>,
  and \<open>create_measure\<close> raises \<open>AttributeError\<close> where it reads it.
\<close>

theorem create_measure_no_part:
  "current_part b = None \<Longrightarrow> create_measure b = Inl AttributeError"
  by (simp add: create_measure_def)

theorem create_measure_no_part_witness:
  "current_part init = None \<and> create_measure init = Inl AttributeError"
proof -
  have "current_part init = None" by code_simp
  with create_measure_no_part [of init] show ?thesis by simp
qed



subsection \<open>Bar attributes and accidentals\<close>





subsection \<open>The XML document\<close>



end
